theory Spec2Isabelle
  imports Main "HOL-Library.Sublist"
begin

section \<open>The age-verification controller of AgeVerification.tsx\<close>

text \<open>
  The component keeps six React state cells (\<open>useState\<close>) and two element references
  (\<open>videoRef\<close>, \<open>canvasRef\<close>). Its handlers \<open>startCamera\<close>, \<open>stopCamera\<close>,
  \<open>capturePhoto\<close>, \<open>handleFileUpload\<close>, \<open>processImage\<close> and \<open>resetCapture\<close> are
  modelled as functions on a record of those cells. Whatever a handler reads from the
  browser (whether a referenced element is mounted, what \<open>getUserMedia\<close>, the canvas,
  the file reader, the classifier and \<open>fetch\<close> answer) is an explicit argument;
  whatever it does to the outside (requests, notices, navigation) is returned as a list
  of effects.
\<close>

subsection \<open>Data\<close>

text \<open>A \<open>MediaStream\<close> object is known by its identity only.\<close>

type_synonym media_stream = nat

text \<open>A \<open>File\<close> as the handler reads it: \<open>name\<close>, \<open>type\<close> and \<open>size\<close> (bytes).\<close>

record uploaded_file =
  file_name :: string
  file_type :: string
  file_size :: nat

text \<open>
  The six \<open>useState\<close> cells, and two facts outside React that the handlers change:
  \<open>srcObject\<close> of the video element, and the streams whose tracks have not been stopped.
\<close>

record state =
  error :: "string option"
  isProcessing :: bool
  isCameraActive :: bool
  selectedFile :: "uploaded_file option"
  previewImage :: "string option"
  stream :: "media_stream option"
  srcObject :: "media_stream option"
  liveTracks :: "media_stream set"

text \<open>The component as first rendered: every cell at its \<open>useState\<close> initial value.\<close>

definition initial :: state where
  "initial = \<lparr>error = None, isProcessing = False, isCameraActive = False,
     selectedFile = None, previewImage = None, stream = None,
     srcObject = None, liveTracks = {}\<rparr>"

text \<open>
  JavaScript truthiness of a \<open>string | null\<close>: \<open>null\<close> and the empty string are falsy.
\<close>

fun truthy :: "string option \<Rightarrow> bool" where
  "truthy None = False"
| "truthy (Some []) = False"
| "truthy (Some (c # cs)) = True"

subsection \<open>Messages\<close>

text \<open>
  The user-facing messages are French; a character outside ASCII is written by its
  code unit (all of them are below 256).
\<close>

definition msg_camera :: string where
  "msg_camera = ''Impossible d'acc'' @ [CHR 0xE9] @ ''der '' @ [CHR 0xE0] @ '' la cam''
     @ [CHR 0xE9] @ ''ra. Veuillez autoriser l'acc'' @ [CHR 0xE8]
     @ ''s ou utiliser l'option de t'' @ [CHR 0xE9] @ ''l'' @ [CHR 0xE9] @ ''chargement.''"

definition msg_capture :: string where
  "msg_capture = ''Erreur lors de la capture de la photo. Veuillez r'' @ [CHR 0xE9]
     @ ''essayer.''"

definition msg_type :: string where
  "msg_type = ''Veuillez s'' @ [CHR 0xE9] @ ''lectionner une image valide.''"

definition msg_size :: string where
  "msg_size = ''L'image est trop volumineuse. Taille maximum: 5MB''"

definition msg_upload :: string where
  "msg_upload = ''Erreur lors du traitement de l'image. Veuillez r'' @ [CHR 0xE9]
     @ ''essayer.''"

definition msg_analysis :: string where
  "msg_analysis = ''Erreur lors de l'analyse de la photo. Veuillez r'' @ [CHR 0xE9]
     @ ''essayer.''"

text \<open>Decimal text of an integer, as a template literal prints it.\<close>

definition digit :: "nat \<Rightarrow> char" where
  "digit n = ''0123456789'' ! (n mod 10)"

fun nat_toString :: "nat \<Rightarrow> string" where
  "nat_toString n =
     (if n < 10 then [digit n] else nat_toString (n div 10) @ [digit n])"

declare nat_toString.simps [simp del]

definition toString :: "int \<Rightarrow> string" where
  "toString i = (if i < 0 then CHR ''-'' # nat_toString (nat (- i)) else nat_toString (nat i))"

definition msg_rejected :: "int \<Rightarrow> string" where
  "msg_rejected detectedAge =
     ''D'' @ [CHR 0xE9] @ ''sol'' @ [CHR 0xE9] @ '', l'' @ [CHR 0x27, CHR 0xE2] @ ''ge d''
     @ [CHR 0xE9] @ ''tect'' @ [CHR 0xE9] @ '' ('' @ toString detectedAge
     @ '' ans) ne correspond pas aux crit'' @ [CHR 0xE8] @ ''res requis (13-17 ans).''"

definition msg_confirmed :: "int \<Rightarrow> string" where
  "msg_confirmed detectedAge =
     [CHR 0xC2] @ ''ge confirm'' @ [CHR 0xE9] @ '': '' @ toString detectedAge
     @ '' ans. Redirection vers Discord...''"

definition discord_url :: string where
  "discord_url = ''https://discord.gg/kphrm4ubxQ''"

subsection \<open>Device manager: \<open>startCamera\<close> and \<open>stopCamera\<close>\<close>

text \<open>
  \<open>startCamera\<close> (lines 19-38). \<open>gum\<close> is the outcome of \<open>getUserMedia\<close>: \<open>Some m\<close>
  when it resolves with a new stream \<open>m\<close>, whose tracks run from then on, \<open>None\<close> when
  it rejects. \<open>video\<close> says whether \<open>videoRef.current\<close> is an element. Nothing is done
  with the new stream when it is not.
\<close>

definition startCamera :: "media_stream option \<Rightarrow> bool \<Rightarrow> state \<Rightarrow> state" where
  "startCamera gum video s =
     (case gum of
        None \<Rightarrow> s\<lparr>error := Some msg_camera\<rparr>
      | Some mediaStream \<Rightarrow>
          (let s1 = s\<lparr>liveTracks := insert mediaStream (liveTracks s)\<rparr> in
           if video
           then s1\<lparr>srcObject := Some mediaStream, stream := Some mediaStream,
                    isCameraActive := True, error := None, previewImage := None\<rparr>
           else s1))"

text \<open>\<open>stopCamera\<close> (lines 40-49).\<close>

definition stopCamera :: "bool \<Rightarrow> state \<Rightarrow> state" where
  "stopCamera video s =
     (let s1 = (case stream s of
                  None \<Rightarrow> s
                | Some m \<Rightarrow> s\<lparr>liveTracks := liveTracks s - {m}, stream := None\<rparr>);
          s2 = (if video then s1\<lparr>srcObject := None\<rparr> else s1)
      in s2\<lparr>isCameraActive := False\<rparr>)"

subsection \<open>Capture pipeline: \<open>capturePhoto\<close>, \<open>handleFileUpload\<close>, \<open>resetCapture\<close>\<close>

text \<open>
  What \<open>capturePhoto\<close> finds in the page: whether \<open>videoRef.current\<close> and
  \<open>canvasRef.current\<close> are elements, whether \<open>getContext('2d')\<close> returns a context,
  and the data URL that drawing and \<open>toDataURL\<close> produce (\<open>None\<close> when one of them throws).
\<close>

record capture_env =
  videoEl :: bool
  canvasEl :: bool
  context2d :: bool
  dataURL :: "string option"

text \<open>\<open>capturePhoto\<close> (lines 57-87).\<close>

definition capturePhoto :: "capture_env \<Rightarrow> state \<Rightarrow> state" where
  "capturePhoto env s =
     (if \<not> videoEl env then s
      else if \<not> canvasEl env then s
      else if \<not> context2d env then s\<lparr>error := Some msg_capture\<rparr>
      else (case dataURL env of
              None \<Rightarrow> s\<lparr>error := Some msg_capture\<rparr>
            | Some imageDataURL \<Rightarrow>
                stopCamera True (s\<lparr>previewImage := Some imageDataURL\<rparr>)))"

text \<open>
  The two guards of lines 97-107, in their order: the declared type must start with
  \<open>image/\<close>, then the size must not exceed \<open>5 * 1024 * 1024\<close>. The result is the
  message of the first guard that fails.
\<close>

definition validate :: "uploaded_file \<Rightarrow> string option" where
  "validate f =
     (if \<not> prefix ''image/'' (file_type f) then Some msg_type
      else if file_size f > 5 * 1024 * 1024 then Some msg_size
      else None)"

text \<open>
  How the \<open>FileReader\<close> behaves: \<open>readAsDataURL\<close> throws at once, or the read ends
  with \<open>onload\<close> and a result, or it ends with \<open>onerror\<close>.
\<close>

datatype read_outcome = ReadThrows | ReadLoaded "string option" | ReadFailed

text \<open>
  \<open>handleFileUpload\<close> up to its return (lines 89-127): the second component says
  whether a read is now pending.
\<close>

definition handleFileUpload :: "uploaded_file option \<Rightarrow> read_outcome \<Rightarrow> state \<Rightarrow> state \<times> bool" where
  "handleFileUpload e r s =
     (case e of
        None \<Rightarrow> (s, False)
      | Some f \<Rightarrow>
          (let s1 = s\<lparr>error := None, selectedFile := Some f\<rparr> in
           case validate f of
             Some msg \<Rightarrow> (s1\<lparr>error := Some msg\<rparr>, False)
           | None \<Rightarrow>
               (if r = ReadThrows then (s1\<lparr>error := Some msg_upload\<rparr>, False)
                else (s1, True))))"

text \<open>
  The reader's callbacks (lines 112-120). \<open>onload\<close> stores a truthy result as the
  preview; \<open>onerror\<close> throws inside the callback, outside the handler's \<open>try\<close>, and no
  cell changes.
\<close>

definition readerSettled :: "read_outcome \<Rightarrow> state \<Rightarrow> state" where
  "readerSettled r s =
     (case r of
        ReadLoaded res \<Rightarrow> (if truthy res then s\<lparr>previewImage := res\<rparr> else s)
      | _ \<Rightarrow> s)"

text \<open>The upload as one operation: the handler, then the pending read settling.\<close>

definition captureFromFile :: "uploaded_file option \<Rightarrow> read_outcome \<Rightarrow> state \<Rightarrow> state" where
  "captureFromFile e r s =
     (let (s1, pending) = handleFileUpload e r s in
      if pending then readerSettled r s1 else s1)"

text \<open>\<open>resetCapture\<close> (lines 159-163).\<close>

definition resetCapture :: "state \<Rightarrow> state" where
  "resetCapture s = s\<lparr>previewImage := None, selectedFile := None, error := None\<rparr>"

subsection \<open>Verification orchestrator: \<open>processImage\<close>\<close>

text \<open>
  Modelled from the spec: \<open>analyzeImageForAge\<close> (imported from \<open>lib/aiAgeChecker\<close>) is
  not among the sources; its interface is taken from section 6, an integer age or a
  failure. It is an argument of the model, as is the answer of \<open>fetch\<close>: a response (of
  any HTTP status, which the code never reads) or a rejection.
\<close>

datatype classify_outcome = Age int | ClassifyFails

datatype fetch_outcome = Response nat | FetchFails

datatype effect =
    Classify string
  | Persist string int
  | Alert string
  | Navigate string
  | ConsoleError

text \<open>Entry of \<open>processImage\<close> (lines 130-133), up to the first \<open>await\<close>.\<close>

definition processImage_begin :: "state \<Rightarrow> state" where
  "processImage_begin s = s\<lparr>isProcessing := True, error := None\<rparr>"

text \<open>The \<open>finally\<close> block (lines 153-156).\<close>

definition processImage_finally :: "state \<Rightarrow> state" where
  "processImage_finally s = s\<lparr>isProcessing := False, selectedFile := None\<rparr>"

text \<open>
  The body after the classifier has answered (lines 136-156). \<open>img\<close> is the preview
  the handler was started with.
\<close>

definition processImage_resolve ::
  "string \<Rightarrow> classify_outcome \<Rightarrow> fetch_outcome \<Rightarrow> state \<Rightarrow> state \<times> effect list" where
  "processImage_resolve img c p s =
     (case c of
        ClassifyFails \<Rightarrow>
          (processImage_finally (s\<lparr>error := Some msg_analysis\<rparr>),
           [Classify img, ConsoleError])
      | Age detectedAge \<Rightarrow>
          (if detectedAge \<ge> 13 \<and> detectedAge \<le> 17
           then (case p of
                   FetchFails \<Rightarrow>
                     (processImage_finally (s\<lparr>error := Some msg_analysis\<rparr>),
                      [Classify img, Persist img detectedAge, ConsoleError])
                 | Response status \<Rightarrow>
                     (processImage_finally s,
                      [Classify img, Persist img detectedAge,
                       Alert (msg_confirmed detectedAge), Navigate discord_url]))
           else (processImage_finally (s\<lparr>error := Some (msg_rejected detectedAge)\<rparr>),
                 [Classify img])))"

text \<open>\<open>processImage\<close> (lines 129-157) as one operation.\<close>

definition processImage ::
  "classify_outcome \<Rightarrow> fetch_outcome \<Rightarrow> state \<Rightarrow> state \<times> effect list" where
  "processImage c p s =
     (case previewImage s of
        None \<Rightarrow> (s, [])
      | Some img \<Rightarrow>
          (if \<not> truthy (Some img) then (s, [])
           else processImage_resolve img c p (processImage_begin s)))"

subsection \<open>What is rendered\<close>

text \<open>
  The JSX (lines 174-291) renders one of three branches: the preview when
  \<open>previewImage\<close> is truthy, else the start controls when the camera is not active,
  else the camera view. The \<open>video\<close> and \<open>canvas\<close> elements exist in the camera
  view only.
\<close>

datatype branch = PreviewBranch | IdleBranch | CameraBranch

definition branch :: "state \<Rightarrow> branch" where
  "branch s =
     (if truthy (previewImage s) then PreviewBranch
      else if \<not> isCameraActive s then IdleBranch
      else CameraBranch)"

definition videoMounted :: "state \<Rightarrow> bool" where
  "videoMounted s = (branch s = CameraBranch)"

datatype control =
    ValidateButton
  | RetakeButton
  | UseCameraButton
  | SelectPhotoButton
  | FileInput
  | CaptureButton
  | StopCameraButton

fun branch_of :: "control \<Rightarrow> branch" where
  "branch_of ValidateButton = PreviewBranch"
| "branch_of RetakeButton = PreviewBranch"
| "branch_of UseCameraButton = IdleBranch"
| "branch_of SelectPhotoButton = IdleBranch"
| "branch_of FileInput = IdleBranch"
| "branch_of CaptureButton = CameraBranch"
| "branch_of StopCameraButton = CameraBranch"

definition rendered :: "state \<Rightarrow> control \<Rightarrow> bool" where
  "rendered s c = (branch s = branch_of c)"

text \<open>Every control carries \<open>disabled={isProcessing}\<close> except the stop button.\<close>

fun disabled :: "state \<Rightarrow> control \<Rightarrow> bool" where
  "disabled s StopCameraButton = False"
| "disabled s c = isProcessing s"

subsection \<open>The component in the page\<close>

text \<open>
  Three handlers suspend: \<open>startCamera\<close> at \<open>getUserMedia\<close>, \<open>handleFileUpload\<close>
  until the reader's callback, \<open>processImage\<close> at the classifier. A page is the cells
  together with the calls that have not settled yet, each with the answer it will get.
\<close>

record page =
  cells :: state
  cameraRequests :: "media_stream option list"
  reads :: "read_outcome list"
  classifying :: "(string \<times> classify_outcome \<times> fetch_outcome) list"

definition initial_page :: page where
  "initial_page = \<lparr>cells = initial, cameraRequests = [], reads = [], classifying = []\<rparr>"

definition drop_nth :: "nat \<Rightarrow> 'a list \<Rightarrow> 'a list" where
  "drop_nth i xs = take i xs @ drop (Suc i) xs"

text \<open>
  What can happen to the page: a handler is called, or a pending call settles (the
  \<open>i\<close>-th of those pending, in any order). \<open>CapturePhoto\<close> carries whether the canvas
  gives a 2d context and what \<open>toDataURL\<close> produces; the answers of the asynchronous
  calls are fixed when the call is made.
\<close>

datatype event =
    StartCamera "media_stream option"
  | CameraSettles nat
  | StopCamera
  | CapturePhoto bool "string option"
  | FileChange "uploaded_file option" read_outcome
  | ReaderSettles nat
  | ProcessImage classify_outcome fetch_outcome
  | ClassifierSettles nat
  | ResetCapture

text \<open>
  One event, the handler called whatever is rendered. The element references are what
  the last render mounted: \<open>videoRef.current\<close> and \<open>canvasRef.current\<close> are elements
  exactly in the camera view. \<open>startCamera\<close> changes no cell before \<open>getUserMedia\<close>
  settles, and reads \<open>videoRef.current\<close> after it. \<open>processImage\<close> changes no cell
  between the classifier's answer and the answer of \<open>fetch\<close>.
\<close>

fun step :: "event \<Rightarrow> page \<Rightarrow> page" where
  "step (StartCamera gum) pg = pg\<lparr>cameraRequests := cameraRequests pg @ [gum]\<rparr>"
| "step (CameraSettles i) pg =
     (if i < length (cameraRequests pg)
      then pg\<lparr>cells := startCamera (cameraRequests pg ! i) (videoMounted (cells pg)) (cells pg),
              cameraRequests := drop_nth i (cameraRequests pg)\<rparr>
      else pg)"
| "step StopCamera pg = pg\<lparr>cells := stopCamera (videoMounted (cells pg)) (cells pg)\<rparr>"
| "step (CapturePhoto ctx url) pg =
     pg\<lparr>cells := capturePhoto
       \<lparr>videoEl = videoMounted (cells pg), canvasEl = videoMounted (cells pg),
        context2d = ctx, dataURL = url\<rparr> (cells pg)\<rparr>"
| "step (FileChange e r) pg =
     (let (s1, pending) = handleFileUpload e r (cells pg) in
      pg\<lparr>cells := s1, reads := (if pending then reads pg @ [r] else reads pg)\<rparr>)"
| "step (ReaderSettles i) pg =
     (if i < length (reads pg)
      then pg\<lparr>cells := readerSettled (reads pg ! i) (cells pg),
              reads := drop_nth i (reads pg)\<rparr>
      else pg)"
| "step (ProcessImage c p) pg =
     (case previewImage (cells pg) of
        None \<Rightarrow> pg
      | Some img \<Rightarrow>
          (if \<not> truthy (Some img) then pg
           else pg\<lparr>cells := processImage_begin (cells pg),
                   classifying := classifying pg @ [(img, c, p)]\<rparr>))"
| "step (ClassifierSettles i) pg =
     (if i < length (classifying pg)
      then (case classifying pg ! i of
              (img, c, p) \<Rightarrow>
                pg\<lparr>cells := fst (processImage_resolve img c p (cells pg)),
                   classifying := drop_nth i (classifying pg)\<rparr>)
      else pg)"
| "step ResetCapture pg = pg\<lparr>cells := resetCapture (cells pg)\<rparr>"

text \<open>
  The control that calls each handler (\<open>onClick\<close>, \<open>onChange\<close> in the JSX); a pending
  call settles without any control.
\<close>

fun control_of :: "event \<Rightarrow> control option" where
  "control_of (StartCamera gum) = Some UseCameraButton"
| "control_of StopCamera = Some StopCameraButton"
| "control_of (CapturePhoto ctx url) = Some CaptureButton"
| "control_of (FileChange e r) = Some FileInput"
| "control_of (ProcessImage c p) = Some ValidateButton"
| "control_of ResetCapture = Some RetakeButton"
| "control_of (CameraSettles i) = None"
| "control_of (ReaderSettles i) = None"
| "control_of (ClassifierSettles i) = None"

text \<open>
  One event as the rendered component receives it: a control that is not rendered, or
  is disabled, fires nothing.
\<close>

definition ui_step :: "event \<Rightarrow> page \<Rightarrow> page" where
  "ui_step ev pg =
     (case control_of ev of
        None \<Rightarrow> step ev pg
      | Some c \<Rightarrow>
          (if rendered (cells pg) c \<and> \<not> disabled (cells pg) c then step ev pg else pg))"

fun run :: "event list \<Rightarrow> page \<Rightarrow> page" where
  "run [] pg = pg"
| "run (ev # evs) pg = run evs (step ev pg)"

fun ui_run :: "event list \<Rightarrow> page \<Rightarrow> page" where
  "ui_run [] pg = pg"
| "ui_run (ev # evs) pg = ui_run evs (ui_step ev pg)"

text \<open>A stream handle (or the camera flag) together with a held preview.\<close>

definition both_held :: "state \<Rightarrow> bool" where
  "both_held s =
     ((stream s \<noteq> None \<and> previewImage s \<noteq> None)
      \<or> (isCameraActive s \<and> previewImage s \<noteq> None))"

section \<open>Properties\<close>

subsection \<open>Validation\<close>

lemma msg_type_neq_msg_size: "msg_type \<noteq> msg_size"
  by (simp add: msg_type_def msg_size_def)

text \<open>
  C5. The validation makes two ordered checks. A file whose declared type does not
  start with \<open>image/\<close> is rejected with the type message whatever its size; an image
  file larger than 5 MiB is rejected with the size message; an image file of at most
  5 MiB passes, exactly 5 MiB included, and 5 MiB + 1 byte is rejected. The two
  messages differ.
\<close>

theorem validate_checks:
  assumes "\<not> prefix ''image/'' (file_type a)"
    and "prefix ''image/'' (file_type b)" and "file_size b > 5 * 1024 * 1024"
    and "prefix ''image/'' (file_type c)" and "file_size c \<le> 5 * 1024 * 1024"
  shows "validate a = Some msg_type
    \<and> validate (a\<lparr>file_size := n\<rparr>) = Some msg_type
    \<and> validate b = Some msg_size
    \<and> validate c = None
    \<and> validate (c\<lparr>file_size := 5 * 1024 * 1024\<rparr>) = None
    \<and> validate (c\<lparr>file_size := 5 * 1024 * 1024 + 1\<rparr>) = Some msg_size
    \<and> msg_type \<noteq> msg_size"
  using assms by (simp add: validate_def msg_type_neq_msg_size)

theorem validate_checks_witness:
  "\<not> prefix ''image/'' (file_type \<lparr>file_name = ''a.txt'', file_type = ''text/plain'', file_size = 10\<rparr>)
   \<and> prefix ''image/'' (file_type \<lparr>file_name = ''b.jpg'', file_type = ''image/jpeg'', file_size = 6291456\<rparr>)
   \<and> file_size \<lparr>file_name = ''b.jpg'', file_type = ''image/jpeg'', file_size = 6291456\<rparr> > 5 * 1024 * 1024
   \<and> prefix ''image/'' (file_type \<lparr>file_name = ''c.png'', file_type = ''image/png'', file_size = 5242880\<rparr>)
   \<and> file_size \<lparr>file_name = ''c.png'', file_type = ''image/png'', file_size = 5242880\<rparr> \<le> 5 * 1024 * 1024
   \<and> validate \<lparr>file_name = ''a.txt'', file_type = ''text/plain'', file_size = 10\<rparr> = Some msg_type
   \<and> validate \<lparr>file_name = ''a.txt'', file_type = ''text/plain'', file_size = 6291456\<rparr> = Some msg_type
   \<and> validate \<lparr>file_name = ''b.jpg'', file_type = ''image/jpeg'', file_size = 6291456\<rparr> = Some msg_size
   \<and> validate \<lparr>file_name = ''c.png'', file_type = ''image/png'', file_size = 5242880\<rparr> = None
   \<and> validate \<lparr>file_name = ''c.png'', file_type = ''image/png'', file_size = 5242881\<rparr> = Some msg_size"
  using validate_checks [of
      "\<lparr>file_name = ''a.txt'', file_type = ''text/plain'', file_size = 10\<rparr>"
      "\<lparr>file_name = ''b.jpg'', file_type = ''image/jpeg'', file_size = 6291456\<rparr>"
      "\<lparr>file_name = ''c.png'', file_type = ''image/png'', file_size = 5242880\<rparr>"
      6291456]
  by simp

subsection \<open>Releasing the camera\<close>

text \<open>
  C8. \<open>stopCamera\<close> is idempotent: a second call right after the first (with the video
  element as it was, or unmounted meanwhile) changes nothing. From any state, with or
  without a handle, it ends with no handle and the camera flag off; without a handle it
  stops no track.
\<close>

theorem stopCamera_idempotent:
  "stopCamera video (stopCamera video s) = stopCamera video s
   \<and> stopCamera False (stopCamera video s) = stopCamera video s
   \<and> stream (stopCamera video s) = None
   \<and> isCameraActive (stopCamera video s) = False
   \<and> stream (stopCamera video (s\<lparr>stream := None\<rparr>)) = None
   \<and> isCameraActive (stopCamera video (s\<lparr>stream := None\<rparr>)) = False
   \<and> liveTracks (stopCamera video (s\<lparr>stream := None\<rparr>)) = liveTracks s"
  by (cases "stream s") (simp_all add: stopCamera_def Let_def)

subsection \<open>Acquiring the camera\<close>

text \<open>
  C3. A stream that \<open>getUserMedia\<close> has created must end up bound as the handle or
  stopped. On the first render the start controls are shown and the video element is
  not mounted; when \<open>getUserMedia\<close> then resolves with stream 0, \<open>startCamera\<close> leaves
  every cell as it was: the stream's tracks run, and no handle records it.
\<close>

theorem startCamera_abandons_stream:
  "videoMounted initial = False
   \<and> startCamera (Some 0) (videoMounted initial) initial = initial\<lparr>liveTracks := {0}\<rparr>
   \<and> stream (startCamera (Some 0) (videoMounted initial) initial) = None
   \<and> 0 \<in> liveTracks (startCamera (Some 0) (videoMounted initial) initial)
   \<and> liveTracks (stopCamera False (startCamera (Some 0) (videoMounted initial) initial)) = {0}"
  by (simp add: videoMounted_def branch_def initial_def startCamera_def stopCamera_def)

subsection \<open>Capturing a frame\<close>

text \<open>
  C9, as the claim states it, fails: with the camera bound and the video element
  missing when the frame is captured, \<open>capturePhoto\<close> returns without attaching any
  error.
\<close>

theorem capturePhoto_silent_counterexample:
  "error (capturePhoto \<lparr>videoEl = False, canvasEl = True, context2d = True,
       dataURL = Some ''data:image/jpeg;base64,AA''\<rparr>
     (startCamera (Some 0) True initial)) = None"
  by (simp add: capturePhoto_def startCamera_def initial_def)

text \<open>
  C9, amended. When the video element or the canvas element is missing,
  \<open>capturePhoto\<close> returns at once and the state is unchanged, with no error attached.
  When both are present and the canvas gives no 2d context, the capture error message
  is attached and nothing else changes.
\<close>

theorem capturePhoto_unavailable:
  assumes "videoEl a = False \<or> canvasEl a = False"
    and "videoEl b" and "canvasEl b" and "context2d b = False"
  shows "capturePhoto a s = s \<and> capturePhoto b s = s\<lparr>error := Some msg_capture\<rparr>"
  using assms by (auto simp add: capturePhoto_def)

theorem capturePhoto_unavailable_witness:
  "(videoEl \<lparr>videoEl = True, canvasEl = False, context2d = True, dataURL = None\<rparr> = False
     \<or> canvasEl \<lparr>videoEl = True, canvasEl = False, context2d = True, dataURL = None\<rparr> = False)
   \<and> videoEl \<lparr>videoEl = True, canvasEl = True, context2d = False, dataURL = None\<rparr>
   \<and> canvasEl \<lparr>videoEl = True, canvasEl = True, context2d = False, dataURL = None\<rparr>
   \<and> context2d \<lparr>videoEl = True, canvasEl = True, context2d = False, dataURL = None\<rparr> = False
   \<and> capturePhoto \<lparr>videoEl = True, canvasEl = False, context2d = True, dataURL = None\<rparr>
        (startCamera (Some 0) True initial) = startCamera (Some 0) True initial
   \<and> error (capturePhoto \<lparr>videoEl = True, canvasEl = True, context2d = False, dataURL = None\<rparr>
        (startCamera (Some 0) True initial)) = Some msg_capture
   \<and> stream (capturePhoto \<lparr>videoEl = True, canvasEl = True, context2d = False, dataURL = None\<rparr>
        (startCamera (Some 0) True initial)) = Some 0"
  using capturePhoto_unavailable [of
      "\<lparr>videoEl = True, canvasEl = False, context2d = True, dataURL = None\<rparr>"
      "\<lparr>videoEl = True, canvasEl = True, context2d = False, dataURL = None\<rparr>"
      "startCamera (Some 0) True initial"]
  by (simp add: startCamera_def initial_def)

subsection \<open>Uploading a file\<close>

text \<open>
  C10, as the claim states it, fails: after an upload that produced a preview the
  selected file is still held.
\<close>

theorem captureFromFile_keeps_file_counterexample:
  "selectedFile (captureFromFile
       (Some \<lparr>file_name = ''c.png'', file_type = ''image/png'', file_size = 2048\<rparr>)
       (ReadLoaded (Some ''data:image/png;base64,AA'')) initial)
     = Some \<lparr>file_name = ''c.png'', file_type = ''image/png'', file_size = 2048\<rparr>"
  by (simp add: captureFromFile_def handleFileUpload_def validate_def readerSettled_def
      initial_def)

lemma handleFileUpload_selectedFile:
  "selectedFile (fst (handleFileUpload (Some f) r s)) = Some f"
  by (simp add: handleFileUpload_def Let_def split: option.splits)

lemma readerSettled_selectedFile: "selectedFile (readerSettled r s) = selectedFile s"
  by (simp add: readerSettled_def split: read_outcome.splits)

text \<open>
  C10, amended. After an upload of a file, whether validation fails, the read throws,
  the read fails or a preview is produced, the controller holds that file as its
  selected file. The reference is dropped later: by \<open>resetCapture\<close>, and by the
  \<open>finally\<close> block of \<open>processImage\<close> whatever the classifier and the persistence call
  answer.
\<close>

theorem captureFromFile_holds_file:
  "selectedFile (captureFromFile (Some f) r s) = Some f
   \<and> selectedFile (resetCapture s) = None
   \<and> selectedFile (fst (processImage_resolve img c p s)) = None"
proof -
  have "selectedFile (captureFromFile (Some f) r s) = Some f"
    using handleFileUpload_selectedFile [of f r s]
    by (cases "handleFileUpload (Some f) r s")
      (simp add: captureFromFile_def readerSettled_selectedFile)
  moreover have "selectedFile (resetCapture s) = None"
    by (simp add: resetCapture_def)
  moreover have "selectedFile (fst (processImage_resolve img c p s)) = None"
    by (simp add: processImage_resolve_def processImage_finally_def
        split: classify_outcome.splits fetch_outcome.splits)
  ultimately show ?thesis by simp
qed

subsection \<open>Processing\<close>

lemma toString_25: "toString 25 = ''25''"
  by (simp add: toString_def nat_toString.simps digit_def)

lemma processImage_truthy:
  "previewImage s = Some (c # cs) \<Longrightarrow>
   processImage cl p s = processImage_resolve (c # cs) cl p (processImage_begin s)"
  by (simp add: processImage_def)

text \<open>
  C1, as the claim states it, fails: a valid file is selected and read, the
  submission is confirmed, the classifier answers 15 and the persistence call answers
  200; the preview is still held at the end.
\<close>

theorem processImage_keeps_preview_counterexample:
  "previewImage (cells (ui_run
       [FileChange
          (Some \<lparr>file_name = ''c.png'', file_type = ''image/png'', file_size = 2048\<rparr>)
          (ReadLoaded (Some ''data:image/png;base64,AA'')),
        ReaderSettles 0,
        ProcessImage (Age 15) (Response 200),
        ClassifierSettles 0] initial_page))
     = Some ''data:image/png;base64,AA''"
  by (simp add: ui_step_def rendered_def branch_def drop_nth_def initial_page_def
      initial_def handleFileUpload_def validate_def readerSettled_def
      processImage_begin_def processImage_resolve_def processImage_finally_def)

text \<open>
  C1, amended. When the classifier returns an age in 13..17, \<open>processImage\<close> ends with
  the preview still held, unchanged, whatever the persistence call answers, and the
  preview branch stays rendered. Exactly three cells are written: the processing flag
  is cleared, the selected file is dropped, and the error cell is emptied when the
  persistence call resolves and holds the analysis message when it rejects.
\<close>

theorem processImage_success_preview:
  assumes "previewImage s = Some (c # cs)" and "13 \<le> age" and "age \<le> 17"
  shows "fst (processImage (Age age) p s)
      = s\<lparr>isProcessing := False,
          error := (case p of Response status \<Rightarrow> None | FetchFails \<Rightarrow> Some msg_analysis),
          selectedFile := None\<rparr>
    \<and> previewImage (fst (processImage (Age age) p s)) = Some (c # cs)
    \<and> branch (fst (processImage (Age age) p s)) = PreviewBranch"
  using assms
  by (cases p)
    (simp_all add: processImage_truthy processImage_resolve_def processImage_begin_def
      processImage_finally_def branch_def)

theorem processImage_success_preview_witness:
  "previewImage (initial\<lparr>previewImage := Some ''data:,x'', error := Some msg_type\<rparr>)
     = Some ''data:,x''
   \<and> (13::int) \<le> 15 \<and> (15::int) \<le> 17
   \<and> fst (processImage (Age 15) (Response 200)
        (initial\<lparr>previewImage := Some ''data:,x'', error := Some msg_type\<rparr>))
     = initial\<lparr>previewImage := Some ''data:,x''\<rparr>
   \<and> previewImage (fst (processImage (Age 15) (Response 200)
        (initial\<lparr>previewImage := Some ''data:,x'', error := Some msg_type\<rparr>)))
     = Some ''data:,x''"
  using processImage_success_preview
    [of "initial\<lparr>previewImage := Some ''data:,x'', error := Some msg_type\<rparr>"
      "CHR ''d''" "''ata:,x''" 15 "Response 200"]
  by (simp add: initial_def)

text \<open>
  C2, as the claim states it, fails: the classifier answers 15 and the persistence
  call rejects; no notice is shown, no navigation happens, and the analysis error is
  attached.
\<close>

theorem processImage_fetch_fails_counterexample:
  "processImage (Age 15) FetchFails (initial\<lparr>previewImage := Some ''data:,x''\<rparr>)
     = (initial\<lparr>previewImage := Some ''data:,x'', error := Some msg_analysis\<rparr>,
        [Classify ''data:,x'', Persist ''data:,x'' 15, ConsoleError])"
  by (simp add: processImage_def processImage_begin_def processImage_resolve_def
      processImage_finally_def initial_def)

text \<open>
  C2, amended. When the classifier returns an age in 13..17 the persistence call is
  awaited. If it resolves, with any status, the notice is shown, the navigation is
  invoked exactly once, and no error is attached; the end state does not depend on the
  status. If it rejects, there is no notice and no navigation, and the analysis error
  message is attached. In both cases the flag is cleared, the selected file is dropped
  and the preview is kept.
\<close>

theorem processImage_success_persistence:
  assumes "previewImage s = Some (c # cs)" and "13 \<le> age" and "age \<le> 17"
  shows "processImage (Age age) (Response status) s
      = (s\<lparr>isProcessing := False, error := None, selectedFile := None\<rparr>,
         [Classify (c # cs), Persist (c # cs) age, Alert (msg_confirmed age),
          Navigate discord_url])
    \<and> processImage (Age age) FetchFails s
      = (s\<lparr>isProcessing := False, error := Some msg_analysis, selectedFile := None\<rparr>,
         [Classify (c # cs), Persist (c # cs) age, ConsoleError])"
  using assms
  by (simp add: processImage_truthy processImage_resolve_def processImage_begin_def
      processImage_finally_def)

theorem processImage_success_persistence_witness:
  "previewImage (initial\<lparr>previewImage := Some ''data:,x''\<rparr>) = Some ''data:,x''
   \<and> (13::int) \<le> 15 \<and> (15::int) \<le> 17
   \<and> snd (processImage (Age 15) (Response 500) (initial\<lparr>previewImage := Some ''data:,x''\<rparr>))
      = [Classify ''data:,x'', Persist ''data:,x'' 15, Alert (msg_confirmed 15),
         Navigate discord_url]
   \<and> error (fst (processImage (Age 15) (Response 500)
        (initial\<lparr>previewImage := Some ''data:,x''\<rparr>))) = None
   \<and> snd (processImage (Age 15) FetchFails (initial\<lparr>previewImage := Some ''data:,x''\<rparr>))
      = [Classify ''data:,x'', Persist ''data:,x'' 15, ConsoleError]"
  using processImage_success_persistence [of "initial\<lparr>previewImage := Some ''data:,x''\<rparr>"
      "CHR ''d''" "''ata:,x''" 15 500]
  by simp

text \<open>
  C6. When the classifier returns an age outside 13..17, \<open>processImage\<close> attaches the
  rejection message, which contains the decimal text of the detected age; the flag is
  cleared and the preview is held unchanged, so the preview branch is rendered again;
  the only effect is the classifier call: no persistence call, no notice, no
  navigation.
\<close>

theorem processImage_rejected:
  assumes "previewImage s = Some (c # cs)" and "age < 13 \<or> 17 < age"
  shows "processImage (Age age) p s
      = (s\<lparr>isProcessing := False, error := Some (msg_rejected age), selectedFile := None\<rparr>,
         [Classify (c # cs)])
    \<and> sublist (toString age) (msg_rejected age)
    \<and> previewImage (fst (processImage (Age age) p s)) = Some (c # cs)
    \<and> isProcessing (fst (processImage (Age age) p s)) = False
    \<and> branch (fst (processImage (Age age) p s)) = PreviewBranch"
proof -
  have run: "processImage (Age age) p s
      = (s\<lparr>isProcessing := False, error := Some (msg_rejected age), selectedFile := None\<rparr>,
         [Classify (c # cs)])"
    using assms
    by (auto simp add: processImage_truthy processImage_resolve_def processImage_begin_def
        processImage_finally_def)
  have "msg_rejected age
      = (''D'' @ [CHR 0xE9] @ ''sol'' @ [CHR 0xE9] @ '', l'' @ [CHR 0x27, CHR 0xE2]
          @ ''ge d'' @ [CHR 0xE9] @ ''tect'' @ [CHR 0xE9] @ '' ('')
        @ toString age
        @ ('' ans) ne correspond pas aux crit'' @ [CHR 0xE8] @ ''res requis (13-17 ans).'')"
    by (simp add: msg_rejected_def)
  then have contains: "sublist (toString age) (msg_rejected age)"
    unfolding sublist_def by blast
  show ?thesis
    using assms(1) contains by (simp add: run branch_def)
qed

theorem processImage_rejected_witness:
  "previewImage (initial\<lparr>previewImage := Some ''data:,x''\<rparr>) = Some ''data:,x''
   \<and> ((25::int) < 13 \<or> (17::int) < 25)
   \<and> snd (processImage (Age 25) (Response 200) (initial\<lparr>previewImage := Some ''data:,x''\<rparr>))
      = [Classify ''data:,x'']
   \<and> error (fst (processImage (Age 25) (Response 200)
        (initial\<lparr>previewImage := Some ''data:,x''\<rparr>))) = Some (msg_rejected 25)
   \<and> sublist ''25'' (msg_rejected 25)
   \<and> previewImage (fst (processImage (Age 25) (Response 200)
        (initial\<lparr>previewImage := Some ''data:,x''\<rparr>))) = Some ''data:,x''"
  using processImage_rejected [of "initial\<lparr>previewImage := Some ''data:,x''\<rparr>"
      "CHR ''d''" "''ata:,x''" 25 "Response 200"]
  by (simp add: toString_25)

subsection \<open>Events while processing\<close>

lemma startCamera_isProcessing: "isProcessing (startCamera gum video s) = isProcessing s"
  by (simp add: startCamera_def Let_def split: option.splits)

lemma startCamera_unmounted_preview:
  "previewImage (startCamera gum False s) = previewImage s"
  by (simp add: startCamera_def Let_def split: option.splits)

lemma stopCamera_other_cells:
  "isProcessing (stopCamera video s) = isProcessing s
   \<and> previewImage (stopCamera video s) = previewImage s"
  by (simp add: stopCamera_def Let_def split: option.splits)

lemma capturePhoto_isProcessing: "isProcessing (capturePhoto env s) = isProcessing s"
  by (simp add: capturePhoto_def stopCamera_other_cells split: option.splits)

lemma handleFileUpload_other_cells:
  "isProcessing (fst (handleFileUpload e r s)) = isProcessing s
   \<and> previewImage (fst (handleFileUpload e r s)) = previewImage s"
  by (simp add: handleFileUpload_def Let_def split: option.splits)

lemma readerSettled_keeps_truthy:
  "isProcessing (readerSettled r s) = isProcessing s
   \<and> (truthy (previewImage s) \<longrightarrow> truthy (previewImage (readerSettled r s)))"
  by (simp add: readerSettled_def split: read_outcome.splits)

lemma processImage_resolve_isProcessing:
  "isProcessing (fst (processImage_resolve img c p s)) = False"
  by (simp add: processImage_resolve_def processImage_finally_def
      split: classify_outcome.splits fetch_outcome.splits)

lemma truthy_not_mounted: "truthy (previewImage s) \<Longrightarrow> videoMounted s = False"
  by (simp add: videoMounted_def branch_def)

lemma ui_step_processing_preview:
  assumes "isProcessing (cells pg) \<longrightarrow> truthy (previewImage (cells pg))"
  shows "isProcessing (cells (ui_step ev pg)) \<longrightarrow> truthy (previewImage (cells (ui_step ev pg)))"
proof (cases ev)
  case (StartCamera gum)
  then show ?thesis using assms by (simp add: ui_step_def)
next
  case (CameraSettles i)
  show ?thesis
  proof (cases "isProcessing (cells pg)")
    case True
    then have "videoMounted (cells pg) = False"
      using assms truthy_not_mounted by simp
    then show ?thesis
      using CameraSettles assms True
      by (simp add: ui_step_def startCamera_isProcessing startCamera_unmounted_preview)
  next
    case False
    then show ?thesis
      using CameraSettles by (simp add: ui_step_def startCamera_isProcessing)
  qed
next
  case StopCamera
  then show ?thesis using assms by (simp add: ui_step_def stopCamera_other_cells)
next
  case (CapturePhoto ctx url)
  then show ?thesis using assms by (simp add: ui_step_def capturePhoto_isProcessing)
next
  case (FileChange e r)
  then show ?thesis
    using assms handleFileUpload_other_cells [of e r "cells pg"]
    by (cases "handleFileUpload e r (cells pg)") (simp add: ui_step_def)
next
  case (ReaderSettles i)
  then show ?thesis
    using assms readerSettled_keeps_truthy [of "reads pg ! i" "cells pg"]
    by (simp add: ui_step_def)
next
  case (ProcessImage c p)
  then show ?thesis
    using assms
    by (cases "previewImage (cells pg)") (simp_all add: ui_step_def processImage_begin_def)
next
  case (ClassifierSettles i)
  then show ?thesis
    using assms
    by (cases "classifying pg ! i")
      (simp add: ui_step_def processImage_resolve_isProcessing)
next
  case ResetCapture
  then show ?thesis using assms by (simp add: ui_step_def resetCapture_def)
qed

lemma ui_run_processing_preview:
  "isProcessing (cells pg) \<longrightarrow> truthy (previewImage (cells pg)) \<Longrightarrow>
   isProcessing (cells (ui_run evs pg)) \<longrightarrow> truthy (previewImage (cells (ui_run evs pg)))"
proof (induction evs arbitrary: pg)
  case Nil
  then show ?case by simp
next
  case (Cons ev evs)
  show ?case
    using Cons.IH [OF ui_step_processing_preview [OF Cons.prems, of ev]] by simp
qed

text \<open>
  C7. While the processing flag is set, a capture or an upload event is ignored: in
  any state with the flag set, the capture button and the file input are disabled, and
  the event leaves the cells and the pending calls as they were. In every state that
  the component reaches with the flag set, the preview branch is rendered, so neither
  control is in the page, the element references are empty, and \<open>capturePhoto\<close>, even
  called directly, returns at its first guard. The flag is cleared when the
  classifier call settles. (A read started before processing began may still settle
  meanwhile; the property is about events that arrive while processing.)
\<close>

theorem processing_ignores_capture:
  assumes "isProcessing (cells pg)"
    and "isProcessing (cells (ui_run evs initial_page))"
  shows "ui_step (CapturePhoto ctx url) pg = pg
    \<and> ui_step (FileChange e r) pg = pg
    \<and> branch (cells (ui_run evs initial_page)) = PreviewBranch
    \<and> rendered (cells (ui_run evs initial_page)) CaptureButton = False
    \<and> rendered (cells (ui_run evs initial_page)) FileInput = False
    \<and> step (CapturePhoto ctx url) (ui_run evs initial_page) = ui_run evs initial_page
    \<and> isProcessing (fst (processImage_resolve img c p (cells pg))) = False"
proof -
  have ignored: "ui_step (CapturePhoto ctx url) pg = pg \<and> ui_step (FileChange e r) pg = pg"
    using assms(1) by (simp add: ui_step_def)
  have "isProcessing (cells initial_page) \<longrightarrow> truthy (previewImage (cells initial_page))"
    by (simp add: initial_page_def initial_def)
  then have shown: "truthy (previewImage (cells (ui_run evs initial_page)))"
    using ui_run_processing_preview [of initial_page evs] assms(2) by simp
  then have br: "branch (cells (ui_run evs initial_page)) = PreviewBranch"
    by (simp add: branch_def)
  have unmounted: "videoMounted (cells (ui_run evs initial_page)) = False"
    using shown truthy_not_mounted by simp
  have direct: "step (CapturePhoto ctx url) (ui_run evs initial_page) = ui_run evs initial_page"
    by (simp add: unmounted capturePhoto_def)
  show ?thesis
    using ignored br direct
    by (simp add: rendered_def processImage_resolve_isProcessing)
qed

theorem processing_ignores_capture_witness:
  "isProcessing (cells (initial_page\<lparr>cells := initial\<lparr>isProcessing := True\<rparr>\<rparr>))
   \<and> rendered (cells (initial_page\<lparr>cells := initial\<lparr>isProcessing := True\<rparr>\<rparr>)) FileInput
   \<and> disabled (cells (initial_page\<lparr>cells := initial\<lparr>isProcessing := True\<rparr>\<rparr>)) FileInput
   \<and> isProcessing (cells (ui_run
       [FileChange
          (Some \<lparr>file_name = ''c.png'', file_type = ''image/png'', file_size = 2048\<rparr>)
          (ReadLoaded (Some ''data:image/png;base64,AA'')),
        ReaderSettles 0,
        ProcessImage (Age 15) (Response 200)] initial_page))
   \<and> ui_step
       (FileChange
          (Some \<lparr>file_name = ''d.png'', file_type = ''image/png'', file_size = 4096\<rparr>)
          (ReadLoaded (Some ''data:image/png;base64,BB'')))
       (initial_page\<lparr>cells := initial\<lparr>isProcessing := True\<rparr>\<rparr>)
     = initial_page\<lparr>cells := initial\<lparr>isProcessing := True\<rparr>\<rparr>
   \<and> step (CapturePhoto True (Some ''data:image/jpeg;base64,CC''))
       (ui_run
         [FileChange
            (Some \<lparr>file_name = ''c.png'', file_type = ''image/png'', file_size = 2048\<rparr>)
            (ReadLoaded (Some ''data:image/png;base64,AA'')),
          ReaderSettles 0,
          ProcessImage (Age 15) (Response 200)] initial_page)
     = ui_run
         [FileChange
            (Some \<lparr>file_name = ''c.png'', file_type = ''image/png'', file_size = 2048\<rparr>)
            (ReadLoaded (Some ''data:image/png;base64,AA'')),
          ReaderSettles 0,
          ProcessImage (Age 15) (Response 200)] initial_page"
proof -
  have p1: "isProcessing (cells (initial_page\<lparr>cells := initial\<lparr>isProcessing := True\<rparr>\<rparr>))"
    by simp
  have p2: "isProcessing (cells (ui_run
       [FileChange
          (Some \<lparr>file_name = ''c.png'', file_type = ''image/png'', file_size = 2048\<rparr>)
          (ReadLoaded (Some ''data:image/png;base64,AA'')),
        ReaderSettles 0,
        ProcessImage (Age 15) (Response 200)] initial_page))"
    by (simp add: ui_step_def rendered_def branch_def drop_nth_def initial_page_def
        initial_def handleFileUpload_def validate_def readerSettled_def
        processImage_begin_def)
  have p3: "rendered (cells (initial_page\<lparr>cells := initial\<lparr>isProcessing := True\<rparr>\<rparr>)) FileInput
    \<and> disabled (cells (initial_page\<lparr>cells := initial\<lparr>isProcessing := True\<rparr>\<rparr>)) FileInput"
    by (simp add: rendered_def branch_def initial_def)
  show ?thesis
    using p1 p2 p3
      processing_ignores_capture [OF p1 p2, of True "Some ''data:image/jpeg;base64,CC''"
        "Some \<lparr>file_name = ''d.png'', file_type = ''image/png'', file_size = 4096\<rparr>"
        "ReadLoaded (Some ''data:image/png;base64,BB'')"]
    by simp
qed

subsection \<open>Camera and preview\<close>

lemma startCamera_unmounted_camera:
  "stream (startCamera gum False s) = stream s
   \<and> isCameraActive (startCamera gum False s) = isCameraActive s"
  by (simp add: startCamera_def Let_def split: option.splits)

lemma stopCamera_camera:
  "stream (stopCamera video s) = None \<and> isCameraActive (stopCamera video s) = False"
  by (simp add: stopCamera_def Let_def split: option.splits)

lemma capturePhoto_unmounted:
  "capturePhoto \<lparr>videoEl = False, canvasEl = False, context2d = ctx, dataURL = url\<rparr> s = s"
  by (simp add: capturePhoto_def)

lemma handleFileUpload_camera:
  "stream (fst (handleFileUpload e r s)) = stream s
   \<and> isCameraActive (fst (handleFileUpload e r s)) = isCameraActive s"
  by (simp add: handleFileUpload_def Let_def split: option.splits)

lemma readerSettled_camera:
  "stream (readerSettled r s) = stream s
   \<and> isCameraActive (readerSettled r s) = isCameraActive s"
  by (simp add: readerSettled_def split: read_outcome.splits)

lemma processImage_resolve_camera:
  "stream (fst (processImage_resolve img c p s)) = stream s
   \<and> isCameraActive (fst (processImage_resolve img c p s)) = isCameraActive s"
  by (simp add: processImage_resolve_def processImage_finally_def
      split: classify_outcome.splits fetch_outcome.splits)

lemma inactive_not_mounted: "isCameraActive s = False \<Longrightarrow> videoMounted s = False"
  by (simp add: videoMounted_def branch_def)

lemma step_never_binds:
  assumes "stream (cells pg) = None" and "isCameraActive (cells pg) = False"
  shows "stream (cells (step ev pg)) = None \<and> isCameraActive (cells (step ev pg)) = False"
proof -
  have unmounted: "videoMounted (cells pg) = False"
    using assms(2) by (rule inactive_not_mounted)
  show ?thesis
  proof (cases ev)
    case (StartCamera gum)
    then show ?thesis using assms by simp
  next
    case (CameraSettles i)
    then show ?thesis using assms by (simp add: unmounted startCamera_unmounted_camera)
  next
    case StopCamera
    then show ?thesis by (simp add: stopCamera_camera)
  next
    case (CapturePhoto ctx url)
    then show ?thesis using assms by (simp add: unmounted capturePhoto_unmounted)
  next
    case (FileChange e r)
    then show ?thesis
      using assms handleFileUpload_camera [of e r "cells pg"]
      by (cases "handleFileUpload e r (cells pg)") simp
  next
    case (ReaderSettles i)
    then show ?thesis using assms by (simp add: readerSettled_camera)
  next
    case (ProcessImage c p)
    then show ?thesis
      using assms by (cases "previewImage (cells pg)") (simp_all add: processImage_begin_def)
  next
    case (ClassifierSettles i)
    then show ?thesis
      using assms by (cases "classifying pg ! i") (simp add: processImage_resolve_camera)
  next
    case ResetCapture
    then show ?thesis using assms by (simp add: resetCapture_def)
  qed
qed

lemma ui_step_never_binds:
  assumes "stream (cells pg) = None" and "isCameraActive (cells pg) = False"
  shows "stream (cells (ui_step ev pg)) = None \<and> isCameraActive (cells (ui_step ev pg)) = False"
  using assms step_never_binds [OF assms, of ev]
  by (simp add: ui_step_def split: option.splits)

lemma run_never_binds:
  "stream (cells pg) = None \<Longrightarrow> isCameraActive (cells pg) = False \<Longrightarrow>
   stream (cells (run evs pg)) = None \<and> isCameraActive (cells (run evs pg)) = False"
proof (induction evs arbitrary: pg)
  case Nil
  then show ?case by simp
next
  case (Cons ev evs)
  then show ?case using step_never_binds [of pg ev] by simp
qed

lemma ui_run_never_binds:
  "stream (cells pg) = None \<Longrightarrow> isCameraActive (cells pg) = False \<Longrightarrow>
   stream (cells (ui_run evs pg)) = None \<and> isCameraActive (cells (ui_run evs pg)) = False"
proof (induction evs arbitrary: pg)
  case Nil
  then show ?case by simp
next
  case (Cons ev evs)
  then show ?case using ui_step_never_binds [of pg ev] by simp
qed

text \<open>
  C4. In every state reached from the initial page by any sequence of handler calls
  and settling calls, whether the handlers are called directly or through the rendered
  controls, a stream handle (or the camera flag) and a preview are never held together.
  The reason is that no handle is ever bound: the video element is mounted in the
  camera view only, the camera view needs the camera flag, and \<open>startCamera\<close> sets the
  flag and the handle only when the video element is mounted.
\<close>

theorem camera_preview_exclusive:
  "both_held (cells (run evs initial_page)) = False
   \<and> both_held (cells (ui_run evs initial_page)) = False
   \<and> stream (cells (run evs initial_page)) = None
   \<and> isCameraActive (cells (run evs initial_page)) = False"
proof -
  have start: "stream (cells initial_page) = None \<and> isCameraActive (cells initial_page) = False"
    by (simp add: initial_page_def initial_def)
  show ?thesis
    using start run_never_binds [of initial_page evs] ui_run_never_binds [of initial_page evs]
    by (simp add: both_held_def)
qed

end
